theory Spec2Isabelle
  imports Main
begin

section \<open>The data store\<close>

text \<open>
  The views of \<^verbatim>\<open>accounts/views.py\<close> read and write three tables through the ORM:
  users, accounts and memberships. A table is the list of its rows, in the order the
  ORM returns them; a row carries its primary key.
\<close>

datatype role = Member | Admin | Owner

record user =
  user_pk :: nat
  username :: string
  email :: string
  password :: string

record account =
  account_pk :: nat
  account_name :: string
  account_slug :: string

record account_user =
  au_account :: nat
  au_user :: nat
  au_role :: role

record db =
  users :: "user list"
  accounts :: "account list"
  account_users :: "account_user list"

section \<open>Requests and responses\<close>

text \<open>
  The routes are served for the two request methods \<^verbatim>\<open>GET\<close> and \<^verbatim>\<open>POST\<close>. A
  request carries the user the authentication middleware loaded for it (\<open>None\<close> is the
  anonymous user), its query string and form body as lists of key/value pairs in the
  order sent, and the two per-client stores a view can write: the session and the queue
  of messages shown on the next rendered page.
\<close>

datatype http_method = GET | POST

datatype level = DEBUG | INFO | SUCCESS | WARNING | ERROR

type_synonym query_dict = "(string \<times> string) list"

record request =
  req_method :: http_method
  req_user :: "user option"
  req_GET :: query_dict
  req_POST :: query_dict
  req_session :: "(string \<times> nat) list"
  req_messages :: "(level \<times> string) list"

record route_kwargs =
  kw_account :: nat
  kw_user :: nat

record settings =
  LOGIN_REDIRECT_URL :: string

text \<open>
  A redirect goes either to a location given as text, or to the location of a named
  route with its arguments: \<open>reverse\<close> is kept symbolic, since the URL table
  (\<^verbatim>\<open>urls.py\<close>) is not part of the sources.
\<close>

datatype url = Location string | Reverse string "nat list"

definition reverse :: "string \<Rightarrow> url" where
  "reverse name = Reverse name []"

record form =
  form_initial :: "(string \<times> string) list"
  form_data :: "query_dict option"
  form_errors :: "string list"

datatype ctx_value =
    Accounts "account list"
  | AccountUsers "account_user list"
  | AccountV account
  | AccountUserV account_user
  | UserV user
  | FormV form
  | FlagV bool
  | TextV string

type_synonym ctx = "(string \<times> ctx_value) list"

text \<open>
  The outcome of the access policy is its own kind of response; it is surfaced as a
  redirect to the login page for an anonymous caller and as status 403 for an
  authenticated one.
\<close>

datatype surface = RedirectToLogin | Status403

datatype response =
    HttpResponseRedirect url
  | TemplateResponse "string option" ctx
  | Http404
  | Forbidden surface
  | HttpResponseNotAllowed
  | ServerError

text \<open>
  \<^verbatim>\<open>QueryDict.get(key, default)\<close>: the last value sent for the key, the default when
  the key was not sent.
\<close>

definition QueryDict_get :: "query_dict \<Rightarrow> string \<Rightarrow> string \<Rightarrow> string" where
  "QueryDict_get d k dflt = (case map_of (rev d) k of Some v \<Rightarrow> v | None \<Rightarrow> dflt)"

definition is_authenticated :: "request \<Rightarrow> bool" where
  "is_authenticated request = (req_user request \<noteq> None)"

text \<open>
  The framework's \<^verbatim>\<open>View.dispatch\<close>: the handler a view class defines under the
  name of the request method, and \<^verbatim>\<open>http_method_not_allowed\<close> when the class
  defines none under that name.
\<close>

definition View_dispatch ::
  "(request \<Rightarrow> 'a) option \<Rightarrow> (request \<Rightarrow> 'a) option \<Rightarrow> (request \<Rightarrow> 'a) \<Rightarrow> request \<Rightarrow> 'a" where
  "View_dispatch get post http_method_not_allowed request =
     (case req_method request of
        GET \<Rightarrow> (case get of Some handler \<Rightarrow> handler request
                | None \<Rightarrow> http_method_not_allowed request)
      | POST \<Rightarrow> (case post of Some handler \<Rightarrow> handler request
                 | None \<Rightarrow> http_method_not_allowed request))"

section \<open>Login and logout\<close>

definition LoginForm :: "(string \<times> string) list \<Rightarrow> query_dict option \<Rightarrow> string list \<Rightarrow> form" where
  "LoginForm initial data errors =
     \<lparr>form_initial = initial, form_data = data, form_errors = errors\<rparr>"

text \<open>\<^verbatim>\<open>LoginView.get\<close>, lines 26 to 32.\<close>

definition LoginView_get :: "settings \<Rightarrow> request \<Rightarrow> response" where
  "LoginView_get st request =
     (let redirect_url = QueryDict_get (req_GET request) ''next'' (LOGIN_REDIRECT_URL st)
      in if is_authenticated request
         then HttpResponseRedirect (Location redirect_url)
         else TemplateResponse (Some ''accounts/login.html'')
                [(''form'', FormV (LoginForm [(''redirect_url'', redirect_url)] None []))])"

text \<open>
  The framework's login view (\<^verbatim>\<open>django.contrib.auth.views.login\<close>), as
  \<^verbatim>\<open>LoginView.post\<close> calls it on a \<^verbatim>\<open>POST\<close>: it binds the authentication form it
  is given to the posted data; when the form is valid it logs the form's user in (the
  session and the request's user now name that user) and redirects to the posted
  redirect field, or to the default when the field is empty or the framework's check of
  the redirect's host refuses it; otherwise it renders the form again with the form's
  errors. It never looks at who is logged in already. The authentication form is
  \<^verbatim>\<open>LoginForm\<close> of \<^verbatim>\<open>accounts/forms.py\<close>, which is not among the sources: its
  validation is an argument (the errors, or the user the credentials name), and so is
  the framework's host check. The page's context also names the current site, which is
  left out.
\<close>

type_synonym authentication_form = "query_dict \<Rightarrow> db \<Rightarrow> string list + user"

definition auth_login :: "request \<Rightarrow> user \<Rightarrow> request" where
  "auth_login request u =
     request\<lparr>req_user := Some u, req_session := [(''_auth_user_id'', user_pk u)]\<rparr>"

definition login_view ::
  "settings \<Rightarrow> (string \<Rightarrow> request \<Rightarrow> bool) \<Rightarrow> authentication_form \<Rightarrow> db \<Rightarrow> request \<Rightarrow>
     string \<Rightarrow> response \<times> request" where
  "login_view st host_allowed authentication_form d request redirect_field_name =
     (let redirect_to =
            QueryDict_get (req_POST request) redirect_field_name
              (QueryDict_get (req_GET request) redirect_field_name [])
      in case authentication_form (req_POST request) d of
           Inr u \<Rightarrow>
             (HttpResponseRedirect
                (Location
                   (if redirect_to = [] \<or> \<not> host_allowed redirect_to request
                    then LOGIN_REDIRECT_URL st else redirect_to)),
              auth_login request u)
         | Inl errors \<Rightarrow>
             (TemplateResponse (Some ''registration/login.html'')
                [(''form'', FormV (LoginForm [] (Some (req_POST request)) errors)),
                 (redirect_field_name, TextV redirect_to)],
              request))"

text \<open>\<^verbatim>\<open>LoginView.post\<close>, lines 34 to 36.\<close>

definition LoginView_post ::
  "settings \<Rightarrow> (string \<Rightarrow> request \<Rightarrow> bool) \<Rightarrow> authentication_form \<Rightarrow> db \<Rightarrow> request \<Rightarrow>
     response \<times> request" where
  "LoginView_post st host_allowed LoginForm_clean d request =
     login_view st host_allowed LoginForm_clean d request ''redirect_url''"

definition LoginView ::
  "settings \<Rightarrow> (string \<Rightarrow> request \<Rightarrow> bool) \<Rightarrow> authentication_form \<Rightarrow> db \<Rightarrow> request \<Rightarrow>
     response \<times> request" where
  "LoginView st host_allowed LoginForm_clean d =
     View_dispatch
       (Some (\<lambda>request. (LoginView_get st request, request)))
       (Some (LoginView_post st host_allowed LoginForm_clean d))
       (\<lambda>request. (HttpResponseNotAllowed, request))"

text \<open>
  The framework's \<^verbatim>\<open>logout(request)\<close> flushes the session and makes the request's
  user the anonymous user; \<^verbatim>\<open>messages.add_message\<close> queues a notice.
\<close>

definition logout :: "request \<Rightarrow> request" where
  "logout request = request\<lparr>req_user := None, req_session := []\<rparr>"

definition add_message :: "request \<Rightarrow> level \<Rightarrow> string \<Rightarrow> request" where
  "add_message request lvl msg =
     request\<lparr>req_messages := req_messages request @ [(lvl, msg)]\<rparr>"

text \<open>\<^verbatim>\<open>LogoutView.get\<close> and \<^verbatim>\<open>LogoutView.post\<close>, lines 46 to 52.\<close>

definition LogoutView_get :: "request \<Rightarrow> response \<times> request" where
  "LogoutView_get request =
     (let request1 = logout request;
          request2 = add_message request1 INFO ''You have successfully logged out.''
      in (HttpResponseRedirect (reverse ''login''), request2))"

definition LogoutView_post :: "request \<Rightarrow> response \<times> request" where
  "LogoutView_post request = LogoutView_get request"

definition LogoutView :: "request \<Rightarrow> response \<times> request" where
  "LogoutView =
     View_dispatch (Some LogoutView_get) (Some LogoutView_post)
       (\<lambda>request. (HttpResponseNotAllowed, request))"

section \<open>Resource resolution and the access policy\<close>

text \<open>
  Modelled from the spec: \<^verbatim>\<open>accounts/models.py\<close> and \<^verbatim>\<open>accounts/mixins.py\<close>
  (\<^verbatim>\<open>AccountMixin\<close>, \<^verbatim>\<open>AccountUserMixin\<close>, \<^verbatim>\<open>MembershipRequiredMixin\<close>,
  \<^verbatim>\<open>AdminRequiredMixin\<close>, \<^verbatim>\<open>OwnerRequiredMixin\<close>) are not among the sources.
  The spec's sections 3, 4.2 and 7 say: a membership links a user to an account with a
  role (member, admin or owner); the resolution mixins load, from the route parameter,
  the account, or the membership scoped to an account, or fail with not-found; the
  membership gate asks that the caller be some member of the target account, the admin
  gate that the caller's role there be admin or owner, the owner gate that it be owner;
  a gate's failure is Forbidden, surfaced as a redirect to login for an anonymous caller
  and as 403 for an authenticated one; resolution precedes authorization, which
  precedes the body of the view.
\<close>

definition get_account :: "db \<Rightarrow> nat \<Rightarrow> account option" where
  "get_account d pk = find (\<lambda>a. account_pk a = pk) (accounts d)"

definition account_users_all :: "db \<Rightarrow> account \<Rightarrow> account_user list" where
  "account_users_all d a = filter (\<lambda>m. au_account m = account_pk a) (account_users d)"

definition get_account_user :: "db \<Rightarrow> account \<Rightarrow> nat \<Rightarrow> account_user option" where
  "get_account_user d a upk = find (\<lambda>m. au_user m = upk) (account_users_all d a)"

definition AccountMixin :: "db \<Rightarrow> route_kwargs \<Rightarrow> account option" where
  "AccountMixin d kw = get_account d (kw_account kw)"

definition AccountUserMixin :: "db \<Rightarrow> route_kwargs \<Rightarrow> (account \<times> account_user) option" where
  "AccountUserMixin d kw =
     (case get_account d (kw_account kw) of
        None \<Rightarrow> None
      | Some a \<Rightarrow>
          (case get_account_user d a (kw_user kw) of
             None \<Rightarrow> None
           | Some m \<Rightarrow> Some (a, m)))"

definition AccountUserMixin_account :: "db \<Rightarrow> route_kwargs \<Rightarrow> account option" where
  "AccountUserMixin_account d kw = map_option fst (AccountUserMixin d kw)"

definition role_on :: "db \<Rightarrow> account \<Rightarrow> request \<Rightarrow> role option" where
  "role_on d a request =
     (case req_user request of
        None \<Rightarrow> None
      | Some u \<Rightarrow> map_option au_role (get_account_user d a (user_pk u)))"

definition is_member :: "role option \<Rightarrow> bool" where
  "is_member r = (r \<noteq> None)"

definition is_admin :: "role option \<Rightarrow> bool" where
  "is_admin r = (r = Some Admin \<or> r = Some Owner)"

definition is_owner :: "role option \<Rightarrow> bool" where
  "is_owner r = (r = Some Owner)"

definition forbidden :: "request \<Rightarrow> response" where
  "forbidden request =
     Forbidden (if is_authenticated request then Status403 else RedirectToLogin)"

type_synonym view = "db \<Rightarrow> request \<Rightarrow> route_kwargs \<Rightarrow> response \<times> db"

definition access_policy ::
  "(role option \<Rightarrow> bool) \<Rightarrow> (db \<Rightarrow> route_kwargs \<Rightarrow> account option) \<Rightarrow> view \<Rightarrow> view" where
  "access_policy allowed resolve base d request kw =
     (case resolve d kw of
        None \<Rightarrow> (Http404, d)
      | Some a \<Rightarrow>
          if allowed (role_on d a request) then base d request kw
          else (forbidden request, d))"

definition MembershipRequiredMixin ::
  "(db \<Rightarrow> route_kwargs \<Rightarrow> account option) \<Rightarrow> view \<Rightarrow> view" where
  "MembershipRequiredMixin = access_policy is_member"

definition AdminRequiredMixin ::
  "(db \<Rightarrow> route_kwargs \<Rightarrow> account option) \<Rightarrow> view \<Rightarrow> view" where
  "AdminRequiredMixin = access_policy is_admin"

definition OwnerRequiredMixin ::
  "(db \<Rightarrow> route_kwargs \<Rightarrow> account option) \<Rightarrow> view \<Rightarrow> view" where
  "OwnerRequiredMixin = access_policy is_owner"

text \<open>
  Modelled from the spec: the models' \<^verbatim>\<open>get_absolute_url\<close> methods
  (\<^verbatim>\<open>accounts/models.py\<close>) are not among the sources; by the spec's sections 4.3 and 6
  an account's own page is its detail route, and a membership's is the detail route of
  that user under that account.
\<close>

definition account_get_absolute_url :: "account \<Rightarrow> url" where
  "account_get_absolute_url a = Reverse ''account_detail'' [account_pk a]"

definition account_user_get_absolute_url :: "account_user \<Rightarrow> url" where
  "account_user_get_absolute_url m = Reverse ''accountuser_detail'' [au_account m, au_user m]"

section \<open>What the ORM does to the tables\<close>

text \<open>
  Saving an instance writes the rows that hold its key (the views save accounts and
  memberships they have just read from the tables; a user whose key no row holds is
  inserted); deleting an account removes its
  row and, as the ORM does for rows that reference a deleted one, its memberships;
  deleting a membership removes its row.
\<close>

definition save_account :: "db \<Rightarrow> account \<Rightarrow> db" where
  "save_account d a =
     d\<lparr>accounts := map (\<lambda>x. if account_pk x = account_pk a then a else x) (accounts d)\<rparr>"

definition save_user :: "db \<Rightarrow> user \<Rightarrow> db" where
  "save_user d u =
     (if user_pk u \<in> user_pk ` set (users d)
      then d\<lparr>users := map (\<lambda>x. if user_pk x = user_pk u then u else x) (users d)\<rparr>
      else d\<lparr>users := users d @ [u]\<rparr>)"

definition save_account_user :: "db \<Rightarrow> account_user \<Rightarrow> account_user \<Rightarrow> db" where
  "save_account_user d m m' =
     d\<lparr>account_users :=
         map (\<lambda>x. if au_account x = au_account m \<and> au_user x = au_user m then m' else x)
           (account_users d)\<rparr>"

definition delete_account :: "db \<Rightarrow> account \<Rightarrow> db" where
  "delete_account d a =
     d\<lparr>accounts := filter (\<lambda>x. account_pk x \<noteq> account_pk a) (accounts d),
       account_users := filter (\<lambda>m. au_account m \<noteq> account_pk a) (account_users d)\<rparr>"

definition delete_account_user :: "db \<Rightarrow> account_user \<Rightarrow> db" where
  "delete_account_user d m =
     d\<lparr>account_users :=
         filter (\<lambda>x. \<not> (au_account x = au_account m \<and> au_user x = au_user m))
           (account_users d)\<rparr>"

section \<open>Forms\<close>

text \<open>
  \<^verbatim>\<open>accounts/forms.py\<close> is not among the sources. A model form is taken as the
  function it computes from the posted data, the tables (which its validation may read)
  and the instance it is bound to: the list of its errors, or the instance with the
  form's fields set. The views below take their form class as an argument.
\<close>

type_synonym 'a model_form = "query_dict \<Rightarrow> db \<Rightarrow> 'a \<Rightarrow> string list + 'a"

definition bound_form :: "request \<Rightarrow> string list \<Rightarrow> form" where
  "bound_form request errors =
     \<lparr>form_initial = [], form_data = Some (req_POST request), form_errors = errors\<rparr>"

definition unbound_form :: form where
  "unbound_form = \<lparr>form_initial = [], form_data = None, form_errors = []\<rparr>"

section \<open>The base views\<close>

text \<open>
  \<^verbatim>\<open>BaseAccountList\<close>, lines 55 to 57: the framework's list view over the model
  \<^verbatim>\<open>Account\<close>, its list published as \<^verbatim>\<open>accounts\<close>. The framework's
  \<^verbatim>\<open>get\<close> takes every row of the model and refuses an empty list when the view's
  \<^verbatim>\<open>allow_empty\<close> is off; the views never set that attribute, so it is an argument.
\<close>

definition BaseAccountList_get :: "bool \<Rightarrow> db \<Rightarrow> request \<Rightarrow> response" where
  "BaseAccountList_get allow_empty d request =
     (let object_list = accounts d
      in if \<not> allow_empty \<and> length object_list = 0 then Http404
         else TemplateResponse None
                [(''accounts'', Accounts object_list), (''object_list'', Accounts object_list)])"

definition BaseAccountList :: "bool \<Rightarrow> view" where
  "BaseAccountList allow_empty d request kw =
     View_dispatch
       (Some (\<lambda>request. (BaseAccountList_get allow_empty d request, d)))
       None
       (\<lambda>request. (HttpResponseNotAllowed, d)) request"

text \<open>\<^verbatim>\<open>BaseAccountDetail\<close>, lines 60 to 65.\<close>

definition BaseAccountDetail_get_context_data :: "db \<Rightarrow> account \<Rightarrow> ctx \<Rightarrow> ctx" where
  "BaseAccountDetail_get_context_data d account context =
     (''account'', AccountV account)
       # (''account_users'', AccountUsers (account_users_all d account)) # context"

definition BaseAccountDetail_get :: "db \<Rightarrow> request \<Rightarrow> route_kwargs \<Rightarrow> response" where
  "BaseAccountDetail_get d request kw =
     (case AccountMixin d kw of
        None \<Rightarrow> Http404
      | Some account \<Rightarrow>
          TemplateResponse None
            (BaseAccountDetail_get_context_data d account [(''object'', AccountV account)]))"

definition BaseAccountDetail :: view where
  "BaseAccountDetail d request kw =
     View_dispatch
       (Some (\<lambda>request. (BaseAccountDetail_get d request kw, d)))
       None
       (\<lambda>request. (HttpResponseNotAllowed, d)) request"

text \<open>
  \<^verbatim>\<open>BaseAccountCreate\<close>, lines 68 to 77. The class derives from the framework's plain
  \<^verbatim>\<open>View\<close>: it defines no handler for any request method, and the parent it calls in
  \<^verbatim>\<open>form_valid\<close> has no such method, so that call raises once the form was saved.
\<close>

definition BaseAccountCreate_get_success_url :: "account \<Rightarrow> url" where
  "BaseAccountCreate_get_success_url object = account_get_absolute_url object"

definition BaseAccountCreate_form_valid :: "(db \<Rightarrow> account \<times> db) \<Rightarrow> db \<Rightarrow> response \<times> db" where
  "BaseAccountCreate_form_valid form_save d =
     (case form_save d of (object, d') \<Rightarrow> (ServerError, d'))"

definition BaseAccountCreate :: view where
  "BaseAccountCreate d request kw =
     View_dispatch None None (\<lambda>request. (HttpResponseNotAllowed, d)) request"

text \<open>
  \<^verbatim>\<open>BaseAccountUpdate\<close>, lines 80 to 81: the framework's update view on the account of
  the route. Its \<^verbatim>\<open>get\<close> shows the form; its \<^verbatim>\<open>post\<close> saves a valid form and
  redirects to the object's own page, and shows an invalid form again with its errors.
\<close>

definition BaseAccountUpdate_get :: "db \<Rightarrow> request \<Rightarrow> route_kwargs \<Rightarrow> response \<times> db" where
  "BaseAccountUpdate_get d request kw =
     (case AccountMixin d kw of
        None \<Rightarrow> (Http404, d)
      | Some account \<Rightarrow>
          (TemplateResponse None
             [(''form'', FormV unbound_form), (''object'', AccountV account)], d))"

definition BaseAccountUpdate_post ::
  "account model_form \<Rightarrow> db \<Rightarrow> request \<Rightarrow> route_kwargs \<Rightarrow> response \<times> db" where
  "BaseAccountUpdate_post AccountForm d request kw =
     (case AccountMixin d kw of
        None \<Rightarrow> (Http404, d)
      | Some account \<Rightarrow>
          (case AccountForm (req_POST request) d account of
             Inl errors \<Rightarrow>
               (TemplateResponse None
                  [(''form'', FormV (bound_form request errors)),
                   (''object'', AccountV account)], d)
           | Inr cleaned \<Rightarrow>
               (let object = cleaned\<lparr>account_pk := account_pk account\<rparr>
                in (HttpResponseRedirect (account_get_absolute_url object),
                    save_account d object))))"

definition BaseAccountUpdate :: "account model_form \<Rightarrow> view" where
  "BaseAccountUpdate AccountForm d request kw =
     View_dispatch
       (Some (\<lambda>request. BaseAccountUpdate_get d request kw))
       (Some (\<lambda>request. BaseAccountUpdate_post AccountForm d request kw))
       (\<lambda>request. (HttpResponseNotAllowed, d)) request"

text \<open>
  \<^verbatim>\<open>BaseAccountDelete\<close>, lines 84 to 86: the framework's delete view on the account
  of the route. Its \<^verbatim>\<open>get\<close> asks for confirmation; its \<^verbatim>\<open>post\<close> deletes the
  object and redirects to \<^verbatim>\<open>get_success_url()\<close>.
\<close>

definition BaseAccountDelete_get_success_url :: url where
  "BaseAccountDelete_get_success_url = reverse ''account_list''"

definition BaseAccountDelete_get :: "db \<Rightarrow> request \<Rightarrow> route_kwargs \<Rightarrow> response \<times> db" where
  "BaseAccountDelete_get d request kw =
     (case AccountMixin d kw of
        None \<Rightarrow> (Http404, d)
      | Some account \<Rightarrow> (TemplateResponse None [(''object'', AccountV account)], d))"

definition BaseAccountDelete_post :: "db \<Rightarrow> request \<Rightarrow> route_kwargs \<Rightarrow> response \<times> db" where
  "BaseAccountDelete_post d request kw =
     (case AccountMixin d kw of
        None \<Rightarrow> (Http404, d)
      | Some account \<Rightarrow>
          (HttpResponseRedirect BaseAccountDelete_get_success_url, delete_account d account))"

definition BaseAccountDelete :: view where
  "BaseAccountDelete d request kw =
     View_dispatch
       (Some (\<lambda>request. BaseAccountDelete_get d request kw))
       (Some (\<lambda>request. BaseAccountDelete_post d request kw))
       (\<lambda>request. (HttpResponseNotAllowed, d)) request"

text \<open>
  \<^verbatim>\<open>BaseAccountUserList.get\<close>, lines 90 to 99. \<^verbatim>\<open>get_allow_empty()\<close> returns the
  view's \<^verbatim>\<open>allow_empty\<close> attribute, an argument here as for the account list. The
  argument of \<^verbatim>\<open>Http404\<close> on line 95 calls \<^verbatim>\<open>_\<close>, a name the module neither
  imports nor defines (lines 1 to 14): evaluating it raises \<^verbatim>\<open>NameError\<close> before the
  exception for not-found exists, and the request ends in a server error.
\<close>

definition BaseAccountUserList_get ::
  "bool \<Rightarrow> db \<Rightarrow> request \<Rightarrow> route_kwargs \<Rightarrow> response" where
  "BaseAccountUserList_get get_allow_empty d request kw =
     (case get_account d (kw_account kw) of
        None \<Rightarrow> Http404
      | Some account \<Rightarrow>
          (let object_list = account_users_all d account;
               allow_empty = get_allow_empty
           in if \<not> allow_empty \<and> length object_list = 0 then ServerError
              else TemplateResponse None
                     [(''account_users'', AccountUsers object_list),
                      (''account'', AccountV account)]))"

definition BaseAccountUserList :: "bool \<Rightarrow> view" where
  "BaseAccountUserList allow_empty d request kw =
     View_dispatch
       (Some (\<lambda>request. (BaseAccountUserList_get allow_empty d request kw, d)))
       None
       (\<lambda>request. (HttpResponseNotAllowed, d)) request"

text \<open>\<^verbatim>\<open>BaseAccountUserDetail\<close>, lines 102 to 103.\<close>

definition BaseAccountUserDetail_get :: "db \<Rightarrow> request \<Rightarrow> route_kwargs \<Rightarrow> response" where
  "BaseAccountUserDetail_get d request kw =
     (case AccountUserMixin d kw of
        None \<Rightarrow> Http404
      | Some (account, account_user) \<Rightarrow>
          TemplateResponse None
            [(''object'', AccountUserV account_user), (''account'', AccountV account)])"

definition BaseAccountUserDetail :: view where
  "BaseAccountUserDetail d request kw =
     View_dispatch
       (Some (\<lambda>request. (BaseAccountUserDetail_get d request kw, d)))
       None
       (\<lambda>request. (HttpResponseNotAllowed, d)) request"

text \<open>
  \<^verbatim>\<open>BaseAccountUserCreate\<close>, lines 106 to 124. The keyword arguments the form is built
  with are the framework's (the posted data, on a post) and, added by
  \<^verbatim>\<open>get_form_kwargs\<close>, the account that \<^verbatim>\<open>get_object()\<close> resolved from the route.
\<close>

record form_kwargs =
  kwargs_initial :: "(string \<times> string) list"
  kwargs_data :: "query_dict option"
  kwargs_account :: "account option"

definition CreateView_get_form_kwargs :: "request \<Rightarrow> form_kwargs" where
  "CreateView_get_form_kwargs request =
     \<lparr>kwargs_initial = [],
      kwargs_data = (case req_method request of GET \<Rightarrow> None | POST \<Rightarrow> Some (req_POST request)),
      kwargs_account = None\<rparr>"

definition BaseAccountUserCreate_get_form_kwargs :: "request \<Rightarrow> account \<Rightarrow> form_kwargs" where
  "BaseAccountUserCreate_get_form_kwargs request account =
     (let kwargs = CreateView_get_form_kwargs request
      in kwargs\<lparr>kwargs_account := Some account\<rparr>)"

text \<open>
  Modelled from the spec: \<^verbatim>\<open>AccountUserAddForm\<close> (\<^verbatim>\<open>accounts/forms.py\<close>) is not
  among the sources. By the spec's section 4.4 the new membership is bound to the
  account the form was built with, not to form input. Which user and which role the
  posted fields name is the form's cleaning, an argument: the errors, or the user's key
  and the role.
\<close>

type_synonym add_form_clean = "query_dict \<Rightarrow> db \<Rightarrow> string list + (nat \<times> role)"

definition AccountUserAddForm_is_valid ::
  "add_form_clean \<Rightarrow> form_kwargs \<Rightarrow> db \<Rightarrow> string list + (nat \<times> role)" where
  "AccountUserAddForm_is_valid clean kwargs d =
     (case kwargs_data kwargs of None \<Rightarrow> Inl [] | Some data \<Rightarrow> clean data d)"

definition AccountUserAddForm_save ::
  "form_kwargs \<Rightarrow> nat \<times> role \<Rightarrow> db \<Rightarrow> (account_user \<times> db) option" where
  "AccountUserAddForm_save kwargs cleaned d =
     (case kwargs_account kwargs of
        None \<Rightarrow> None
      | Some account \<Rightarrow>
          (let object = \<lparr>au_account = account_pk account, au_user = fst cleaned,
                          au_role = snd cleaned\<rparr>
           in Some (object, d\<lparr>account_users := account_users d @ [object]\<rparr>)))"

definition BaseAccountUserCreate_get_success_url :: "account_user \<Rightarrow> url" where
  "BaseAccountUserCreate_get_success_url object = account_user_get_absolute_url object"

definition BaseAccountUserCreate_get :: "db \<Rightarrow> request \<Rightarrow> route_kwargs \<Rightarrow> response \<times> db" where
  "BaseAccountUserCreate_get d request kw =
     (case AccountMixin d kw of
        None \<Rightarrow> (Http404, d)
      | Some account \<Rightarrow>
          (TemplateResponse (Some ''accounts/accountuser_form.html'')
             [(''form'', FormV unbound_form)], d))"

definition BaseAccountUserCreate_post ::
  "add_form_clean \<Rightarrow> db \<Rightarrow> request \<Rightarrow> route_kwargs \<Rightarrow> response \<times> db" where
  "BaseAccountUserCreate_post clean d request kw =
     (case AccountMixin d kw of
        None \<Rightarrow> (Http404, d)
      | Some account \<Rightarrow>
          (let kwargs = BaseAccountUserCreate_get_form_kwargs request account
           in case AccountUserAddForm_is_valid clean kwargs d of
                Inl errors \<Rightarrow>
                  (TemplateResponse (Some ''accounts/accountuser_form.html'')
                     [(''form'', FormV (bound_form request errors))], d)
              | Inr cleaned \<Rightarrow>
                  (case AccountUserAddForm_save kwargs cleaned d of
                     None \<Rightarrow> (ServerError, d)
                   | Some (object, d') \<Rightarrow>
                       (HttpResponseRedirect (BaseAccountUserCreate_get_success_url object),
                        d'))))"

definition BaseAccountUserCreate :: "add_form_clean \<Rightarrow> view" where
  "BaseAccountUserCreate clean d request kw =
     View_dispatch
       (Some (\<lambda>request. BaseAccountUserCreate_get d request kw))
       (Some (\<lambda>request. BaseAccountUserCreate_post clean d request kw))
       (\<lambda>request. (HttpResponseNotAllowed, d)) request"

text \<open>\<^verbatim>\<open>BaseAccountUserUpdate\<close>, lines 127 to 128.\<close>

definition BaseAccountUserUpdate_get :: "db \<Rightarrow> request \<Rightarrow> route_kwargs \<Rightarrow> response \<times> db" where
  "BaseAccountUserUpdate_get d request kw =
     (case AccountUserMixin d kw of
        None \<Rightarrow> (Http404, d)
      | Some (account, account_user) \<Rightarrow>
          (TemplateResponse None
             [(''form'', FormV unbound_form), (''object'', AccountUserV account_user)], d))"

definition BaseAccountUserUpdate_post ::
  "account_user model_form \<Rightarrow> db \<Rightarrow> request \<Rightarrow> route_kwargs \<Rightarrow> response \<times> db" where
  "BaseAccountUserUpdate_post AccountUserForm d request kw =
     (case AccountUserMixin d kw of
        None \<Rightarrow> (Http404, d)
      | Some (account, account_user) \<Rightarrow>
          (case AccountUserForm (req_POST request) d account_user of
             Inl errors \<Rightarrow>
               (TemplateResponse None
                  [(''form'', FormV (bound_form request errors)),
                   (''object'', AccountUserV account_user)], d)
           | Inr object \<Rightarrow>
               (HttpResponseRedirect (account_user_get_absolute_url object),
                save_account_user d account_user object)))"

definition BaseAccountUserUpdate :: "account_user model_form \<Rightarrow> view" where
  "BaseAccountUserUpdate AccountUserForm d request kw =
     View_dispatch
       (Some (\<lambda>request. BaseAccountUserUpdate_get d request kw))
       (Some (\<lambda>request. BaseAccountUserUpdate_post AccountUserForm d request kw))
       (\<lambda>request. (HttpResponseNotAllowed, d)) request"

text \<open>
  \<^verbatim>\<open>BaseAccountUserDelete\<close>, lines 131 to 133. Modelled from the spec: the URL table
  (\<^verbatim>\<open>urls.py\<close>) is not among the sources; by the spec's section 6 the routes of the
  login view, the account list and the profile take no parameter, and the route of an
  account's member list takes the account. Line 133 reverses the member list's name
  without an argument, so \<^verbatim>\<open>reverse\<close> raises \<^verbatim>\<open>NoReverseMatch\<close>; the framework's
  delete view calls \<^verbatim>\<open>get_success_url()\<close> after it has deleted the object.
\<close>

definition route_parameters :: "string \<Rightarrow> nat option" where
  "route_parameters name =
     (if name = ''login'' \<or> name = ''account_list'' \<or> name = ''user_profile'' then Some 0
      else if name = ''accountuser_list'' then Some 1
      else None)"

definition NoReverseMatch :: "string \<Rightarrow> nat list \<Rightarrow> bool" where
  "NoReverseMatch name args = (route_parameters name \<noteq> Some (length args))"

definition BaseAccountUserDelete_get_success_url :: "url option" where
  "BaseAccountUserDelete_get_success_url =
     (if NoReverseMatch ''accountuser_list'' [] then None
      else Some (reverse ''accountuser_list''))"

definition BaseAccountUserDelete_get :: "db \<Rightarrow> request \<Rightarrow> route_kwargs \<Rightarrow> response \<times> db" where
  "BaseAccountUserDelete_get d request kw =
     (case AccountUserMixin d kw of
        None \<Rightarrow> (Http404, d)
      | Some (account, account_user) \<Rightarrow>
          (TemplateResponse None [(''object'', AccountUserV account_user)], d))"

definition BaseAccountUserDelete_post :: "db \<Rightarrow> request \<Rightarrow> route_kwargs \<Rightarrow> response \<times> db" where
  "BaseAccountUserDelete_post d request kw =
     (case AccountUserMixin d kw of
        None \<Rightarrow> (Http404, d)
      | Some (account, account_user) \<Rightarrow>
          (let d' = delete_account_user d account_user
           in case BaseAccountUserDelete_get_success_url of
                None \<Rightarrow> (ServerError, d')
              | Some success_url \<Rightarrow> (HttpResponseRedirect success_url, d')))"

definition BaseAccountUserDelete :: view where
  "BaseAccountUserDelete d request kw =
     View_dispatch
       (Some (\<lambda>request. BaseAccountUserDelete_get d request kw))
       (Some (\<lambda>request. BaseAccountUserDelete_post d request kw))
       (\<lambda>request. (HttpResponseNotAllowed, d)) request"

section \<open>The routed views\<close>

text \<open>
  Lines 136 to 173: each routed view is a base view, alone or under one gate. The gate
  resolves through the resolution mixin of the base view it is composed with.
\<close>

definition AccountList :: "bool \<Rightarrow> view" where
  "AccountList allow_empty = BaseAccountList allow_empty"

definition AccountCreate :: view where
  "AccountCreate = BaseAccountCreate"

definition AccountDetail :: view where
  "AccountDetail = MembershipRequiredMixin AccountMixin BaseAccountDetail"

definition AccountUpdate :: "account model_form \<Rightarrow> view" where
  "AccountUpdate AccountForm = AdminRequiredMixin AccountMixin (BaseAccountUpdate AccountForm)"

definition AccountDelete :: view where
  "AccountDelete = OwnerRequiredMixin AccountMixin BaseAccountDelete"

definition AccountUserList :: "bool \<Rightarrow> view" where
  "AccountUserList allow_empty =
     MembershipRequiredMixin AccountMixin (BaseAccountUserList allow_empty)"

definition AccountUserDetail :: view where
  "AccountUserDetail = AdminRequiredMixin AccountUserMixin_account BaseAccountUserDetail"

definition AccountUserUpdate :: "account_user model_form \<Rightarrow> view" where
  "AccountUserUpdate AccountUserForm =
     AdminRequiredMixin AccountUserMixin_account (BaseAccountUserUpdate AccountUserForm)"

definition AccountUserCreate :: "add_form_clean \<Rightarrow> view" where
  "AccountUserCreate clean = AdminRequiredMixin AccountMixin (BaseAccountUserCreate clean)"

definition AccountUserDelete :: view where
  "AccountUserDelete = AdminRequiredMixin AccountUserMixin_account BaseAccountUserDelete"

section \<open>The profile view\<close>

text \<open>
  \<^verbatim>\<open>UserProfileView\<close>, lines 176 to 194: the framework's update view on the object
  \<^verbatim>\<open>get_object\<close> returns, the request's user. The anonymous user is no row of the
  user table, and binding the model form to it fails. The view's \<^verbatim>\<open>success_url\<close>
  attribute is an argument.
\<close>

definition UserProfileView_get_success_url :: "string option \<Rightarrow> url" where
  "UserProfileView_get_success_url success_url =
     (case success_url of
        None \<Rightarrow> reverse ''user_profile''
      | Some s \<Rightarrow> if s \<noteq> [] then Location s else reverse ''user_profile'')"

definition UserProfileView_get_object :: "request \<Rightarrow> user option" where
  "UserProfileView_get_object request = req_user request"

definition UserProfileView_get_context_data :: "ctx \<Rightarrow> ctx" where
  "UserProfileView_get_context_data context = (''profile'', FlagV True) # context"

definition UserProfileView_get :: "db \<Rightarrow> request \<Rightarrow> response \<times> db" where
  "UserProfileView_get d request =
     (case UserProfileView_get_object request of
        None \<Rightarrow> (ServerError, d)
      | Some object \<Rightarrow>
          (TemplateResponse (Some ''accounts/accountuser_form.html'')
             (UserProfileView_get_context_data
                [(''form'', FormV unbound_form), (''object'', UserV object)]), d))"

definition UserProfileView_post ::
  "user model_form \<Rightarrow> string option \<Rightarrow> db \<Rightarrow> request \<Rightarrow> response \<times> db" where
  "UserProfileView_post UserProfileForm success_url d request =
     (case UserProfileView_get_object request of
        None \<Rightarrow> (ServerError, d)
      | Some object \<Rightarrow>
          (case UserProfileForm (req_POST request) d object of
             Inl errors \<Rightarrow>
               (TemplateResponse (Some ''accounts/accountuser_form.html'')
                  (UserProfileView_get_context_data
                     [(''form'', FormV (bound_form request errors)),
                      (''object'', UserV object)]), d)
           | Inr cleaned \<Rightarrow>
               (HttpResponseRedirect (UserProfileView_get_success_url success_url),
                save_user d (cleaned\<lparr>user_pk := user_pk object\<rparr>))))"

definition UserProfileView ::
  "user model_form \<Rightarrow> string option \<Rightarrow> db \<Rightarrow> request \<Rightarrow> response \<times> db" where
  "UserProfileView UserProfileForm success_url d =
     View_dispatch
       (Some (UserProfileView_get d))
       (Some (UserProfileView_post UserProfileForm success_url d))
       (\<lambda>request. (HttpResponseNotAllowed, d))"

section \<open>The routes as one server\<close>

text \<open>
  Modelled from the spec: the URL table (\<^verbatim>\<open>urls.py\<close>) is not among the sources; the
  spec's section 6 lists which view serves which route. A deployment fixes what the
  views take as arguments; serving a request at a view gives the next state of the
  tables, and a list of requests is served one after the other. Login and logout write
  the session only, never the tables.
\<close>

datatype view_name =
    Login_view | Logout_view | AccountList_view | AccountCreate_view | AccountDetail_view
  | AccountUpdate_view | AccountDelete_view | AccountUserList_view | AccountUserCreate_view
  | AccountUserDetail_view | AccountUserUpdate_view | AccountUserDelete_view
  | UserProfile_view

record deployment =
  dep_allow_empty :: bool
  dep_AccountForm :: "account model_form"
  dep_AccountUserForm :: "account_user model_form"
  dep_AccountUserAddForm_clean :: add_form_clean
  dep_UserProfileForm :: "user model_form"
  dep_success_url :: "string option"

fun serve :: "deployment \<Rightarrow> db \<Rightarrow> view_name \<times> request \<times> route_kwargs \<Rightarrow> db" where
  "serve dep d (Login_view, request, kw) = d"
| "serve dep d (Logout_view, request, kw) = d"
| "serve dep d (AccountList_view, request, kw) =
     snd (AccountList (dep_allow_empty dep) d request kw)"
| "serve dep d (AccountCreate_view, request, kw) = snd (AccountCreate d request kw)"
| "serve dep d (AccountDetail_view, request, kw) = snd (AccountDetail d request kw)"
| "serve dep d (AccountUpdate_view, request, kw) =
     snd (AccountUpdate (dep_AccountForm dep) d request kw)"
| "serve dep d (AccountDelete_view, request, kw) = snd (AccountDelete d request kw)"
| "serve dep d (AccountUserList_view, request, kw) =
     snd (AccountUserList (dep_allow_empty dep) d request kw)"
| "serve dep d (AccountUserCreate_view, request, kw) =
     snd (AccountUserCreate (dep_AccountUserAddForm_clean dep) d request kw)"
| "serve dep d (AccountUserDetail_view, request, kw) = snd (AccountUserDetail d request kw)"
| "serve dep d (AccountUserUpdate_view, request, kw) =
     snd (AccountUserUpdate (dep_AccountUserForm dep) d request kw)"
| "serve dep d (AccountUserDelete_view, request, kw) = snd (AccountUserDelete d request kw)"
| "serve dep d (UserProfile_view, request, kw) =
     snd (UserProfileView (dep_UserProfileForm dep) (dep_success_url dep) d request)"

definition serve_all :: "deployment \<Rightarrow> db \<Rightarrow> (view_name \<times> request \<times> route_kwargs) list \<Rightarrow> db" where
  "serve_all dep d xs = fold (\<lambda>x d. serve dep d x) xs d"

text \<open>The keys of the accounts in the store, and the memberships a request added.\<close>

definition account_pks :: "db \<Rightarrow> nat set" where
  "account_pks d = account_pk ` set (accounts d)"

definition created_memberships :: "db \<Rightarrow> db \<Rightarrow> account_user list" where
  "created_memberships d d' = drop (length (account_users d)) (account_users d')"

section \<open>A small deployment\<close>

text \<open>
  Three users, three accounts and four memberships, on which the theorems below are
  instantiated: alice owns Acme, where bob is a plain member; bob owns Globex, where
  carol is an admin; Initech has no member at all.
\<close>

definition alice :: user where
  "alice = \<lparr>user_pk = 1, username = ''alice'', email = ''alice@example.org'',
            password = ''a-secret''\<rparr>"

definition bob :: user where
  "bob = \<lparr>user_pk = 2, username = ''bob'', email = ''bob@example.org'',
          password = ''b-secret''\<rparr>"

definition carol :: user where
  "carol = \<lparr>user_pk = 3, username = ''carol'', email = ''carol@example.org'',
            password = ''c-secret''\<rparr>"

definition acme :: account where
  "acme = \<lparr>account_pk = 1, account_name = ''Acme'', account_slug = ''acme''\<rparr>"

definition globex :: account where
  "globex = \<lparr>account_pk = 2, account_name = ''Globex'', account_slug = ''globex''\<rparr>"

definition initech :: account where
  "initech = \<lparr>account_pk = 3, account_name = ''Initech'', account_slug = ''initech''\<rparr>"

definition membership :: "nat \<Rightarrow> nat \<Rightarrow> role \<Rightarrow> account_user" where
  "membership a u r = \<lparr>au_account = a, au_user = u, au_role = r\<rparr>"

definition example_db :: db where
  "example_db =
     \<lparr>users = [alice, bob, carol],
      accounts = [acme, globex, initech],
      account_users =
        [membership 1 1 Owner, membership 1 2 Member,
         membership 2 2 Owner, membership 2 3 Admin]\<rparr>"

definition example_settings :: settings where
  "example_settings = \<lparr>LOGIN_REDIRECT_URL = ''/accounts''\<rparr>"

definition example_request :: "http_method \<Rightarrow> user option \<Rightarrow> query_dict \<Rightarrow> query_dict \<Rightarrow> request" where
  "example_request m u query body =
     \<lparr>req_method = m, req_user = u, req_GET = query, req_POST = body,
      req_session = (case u of None \<Rightarrow> [] | Some x \<Rightarrow> [(''_auth_user_id'', user_pk x)]),
      req_messages = []\<rparr>"

text \<open>
  A login form whose credentials are the fields \<^verbatim>\<open>username\<close> and \<^verbatim>\<open>password\<close>,
  matched against the stored ones, and a host check that lets every redirect pass.
\<close>

definition example_login_form :: authentication_form where
  "example_login_form data d =
     (case (map_of (rev data) ''username'', map_of (rev data) ''password'') of
        (Some n, Some p) \<Rightarrow>
          (case find (\<lambda>u. username u = n \<and> password u = p) (users d) of
             Some u \<Rightarrow> Inr u
           | None \<Rightarrow> Inl [''Please enter a correct username and password.''])
      | _ \<Rightarrow> Inl [''This field is required.''])"

definition example_host_allowed :: "string \<Rightarrow> request \<Rightarrow> bool" where
  "example_host_allowed redirect_to request = True"

definition route :: "nat \<Rightarrow> nat \<Rightarrow> route_kwargs" where
  "route a u = \<lparr>kw_account = a, kw_user = u\<rparr>"

text \<open>
  A cleaning for the add-member form: the user is named by the \<^verbatim>\<open>email\<close> field,
  the role by the \<^verbatim>\<open>role\<close> field.
\<close>

definition example_role :: "string \<Rightarrow> role option" where
  "example_role s =
     (if s = ''member'' then Some Member
      else if s = ''admin'' then Some Admin
      else if s = ''owner'' then Some Owner
      else None)"

definition example_clean :: add_form_clean where
  "example_clean data d =
     (case (map_of (rev data) ''email'', map_of (rev data) ''role'') of
        (Some e, Some r) \<Rightarrow>
          (case (find (\<lambda>u. email u = e) (users d), example_role r) of
             (Some u, Some r') \<Rightarrow> Inr (user_pk u, r')
           | _ \<Rightarrow> Inl [''Select a valid choice.''])
      | _ \<Rightarrow> Inl [''This field is required.''])"

text \<open>A profile form that sets the e-mail address from the \<^verbatim>\<open>email\<close> field.\<close>

definition example_profile_form :: "user model_form" where
  "example_profile_form data d u =
     (case map_of (rev data) ''email'' of
        Some e \<Rightarrow> Inr (u\<lparr>email := e\<rparr>)
      | None \<Rightarrow> Inl [''This field is required.''])"

definition example_account_form :: "account model_form" where
  "example_account_form data d a =
     (case map_of (rev data) ''name'' of
        Some n \<Rightarrow> Inr (a\<lparr>account_name := n\<rparr>)
      | None \<Rightarrow> Inl [''This field is required.''])"

definition example_account_user_form :: "account_user model_form" where
  "example_account_user_form data d m =
     (case map_of (rev data) ''role'' of
        Some r \<Rightarrow>
          (case example_role r of
             Some r' \<Rightarrow> Inr (m\<lparr>au_role := r'\<rparr>)
           | None \<Rightarrow> Inl [''Select a valid choice.''])
      | None \<Rightarrow> Inl [''This field is required.''])"

text \<open>The accounts a response lists under \<^verbatim>\<open>accounts\<close>.\<close>

definition listed_accounts :: "response \<Rightarrow> account list" where
  "listed_accounts r =
     (case r of
        TemplateResponse t c \<Rightarrow>
          (case map_of c ''accounts'' of Some (Accounts xs) \<Rightarrow> xs | _ \<Rightarrow> [])
      | _ \<Rightarrow> [])"

definition example_deployment :: deployment where
  "example_deployment =
     \<lparr>dep_allow_empty = True,
      dep_AccountForm = example_account_form,
      dep_AccountUserForm = example_account_user_form,
      dep_AccountUserAddForm_clean = example_clean,
      dep_UserProfileForm = example_profile_form,
      dep_success_url = None\<rparr>"

section \<open>Properties\<close>

lemmas example_defs =
  alice_def bob_def carol_def acme_def globex_def initech_def membership_def
  example_db_def example_settings_def example_request_def route_def

subsection \<open>Login\<close>

lemma QueryDict_get_absent:
  "k \<notin> fst ` set q \<Longrightarrow> QueryDict_get q k dflt = dflt"
  by (simp add: QueryDict_get_def map_of_eq_None_iff[THEN iffD2])

lemma QueryDict_get_last:
  "k \<notin> fst ` set q2 \<Longrightarrow> QueryDict_get (q1 @ (k, v) # q2) k dflt = v"
  by (simp add: QueryDict_get_def map_add_def map_of_eq_None_iff[THEN iffD2])

text \<open>
  Claim C10. On a \<^verbatim>\<open>GET\<close> of the login view by an authenticated caller the redirect
  goes to the default \<^verbatim>\<open>LOGIN_REDIRECT_URL\<close> when the query string has no
  \<^verbatim>\<open>next\<close>, and otherwise to the value of \<^verbatim>\<open>next\<close> (the last one sent), whatever
  text that value is: it is not inspected.
\<close>

theorem login_get_redirect_target:
  "(is_authenticated request \<and> ''next'' \<notin> fst ` set (req_GET request) \<longrightarrow>
      LoginView_get st request = HttpResponseRedirect (Location (LOGIN_REDIRECT_URL st))) \<and>
   (is_authenticated request \<and> req_GET request = q1 @ (''next'', v) # q2 \<and>
    ''next'' \<notin> fst ` set q2 \<longrightarrow>
      LoginView_get st request = HttpResponseRedirect (Location v))"
  by (simp add: LoginView_get_def QueryDict_get_absent QueryDict_get_last)

theorem login_get_redirect_target_witness:
  "is_authenticated (example_request GET (Some alice) [] []) \<and>
   ''next'' \<notin> fst ` set (req_GET (example_request GET (Some alice) [] [])) \<and>
   LoginView_get example_settings (example_request GET (Some alice) [] []) =
     HttpResponseRedirect (Location ''/accounts'') \<and>
   is_authenticated
     (example_request GET (Some alice)
        [(''next'', ''/profile''), (''next'', ''http://elsewhere.example/x'')] []) \<and>
   req_GET
     (example_request GET (Some alice)
        [(''next'', ''/profile''), (''next'', ''http://elsewhere.example/x'')] []) =
     [(''next'', ''/profile'')] @ (''next'', ''http://elsewhere.example/x'') # [] \<and>
   ''next'' \<notin> fst ` set ([] :: query_dict) \<and>
   LoginView_get example_settings
     (example_request GET (Some alice)
        [(''next'', ''/profile''), (''next'', ''http://elsewhere.example/x'')] []) =
     HttpResponseRedirect (Location ''http://elsewhere.example/x'')"
  using login_get_redirect_target
    [where request = "example_request GET (Some alice) [] []" and st = example_settings]
    login_get_redirect_target
    [where request = "example_request GET (Some alice)
           [(''next'', ''/profile''), (''next'', ''http://elsewhere.example/x'')] []"
       and ?q1.0 = "[(''next'', ''/profile'')]" and v = "''http://elsewhere.example/x''"
       and ?q2.0 = "[]" and st = example_settings]
  by (simp add: example_defs is_authenticated_def)

text \<open>
  On a \<^verbatim>\<open>GET\<close> the view makes the check its docstring promises: an authenticated
  caller is redirected to the requested location (or the default), no form is rendered,
  and the request's user and session are left as they were.
\<close>

lemma login_short_circuit_on_get:
  "req_method request = GET \<and> is_authenticated request \<longrightarrow>
     LoginView st host_allowed LoginForm_clean d request =
       (HttpResponseRedirect
          (Location (QueryDict_get (req_GET request) ''next'' (LOGIN_REDIRECT_URL st))),
        request)"
  by (simp add: LoginView_def View_dispatch_def LoginView_get_def)

text \<open>
  On a \<^verbatim>\<open>POST\<close> it does not: whoever the caller is, the answer is the framework's
  login view's.
\<close>

lemma login_post_is_login_view:
  "req_method request = POST \<longrightarrow>
     LoginView st host_allowed LoginForm_clean d request =
       login_view st host_allowed LoginForm_clean d request ''redirect_url''"
  by (simp add: LoginView_def View_dispatch_def LoginView_post_def)

text \<open>
  Claim C6 fails on the code for a \<^verbatim>\<open>POST\<close>: \<^verbatim>\<open>LoginView.post\<close> hands the request
  to the framework's login view without the check of \<^verbatim>\<open>LoginView.get\<close>. With alice
  logged in, a post of wrong credentials renders the login form with the form's error
  instead of redirecting, and a post of bob's credentials logs bob in.
\<close>

theorem login_post_no_short_circuit:
  "is_authenticated
     (example_request POST (Some alice) [] [(''username'', ''alice''), (''password'', ''wrong'')]) \<and>
   LoginView example_settings example_host_allowed example_login_form example_db
       (example_request POST (Some alice) [] [(''username'', ''alice''), (''password'', ''wrong'')]) =
     (TemplateResponse (Some ''registration/login.html'')
        [(''form'', FormV (LoginForm [] (Some [(''username'', ''alice''), (''password'', ''wrong'')])
            [''Please enter a correct username and password.''])),
         (''redirect_url'', TextV [])],
      example_request POST (Some alice) [] [(''username'', ''alice''), (''password'', ''wrong'')]) \<and>
   is_authenticated
     (example_request POST (Some alice) [] [(''username'', ''bob''), (''password'', ''b-secret'')]) \<and>
   LoginView example_settings example_host_allowed example_login_form example_db
       (example_request POST (Some alice) [] [(''username'', ''bob''), (''password'', ''b-secret'')]) =
     (HttpResponseRedirect (Location ''/accounts''),
      (example_request POST (Some bob) [] [(''username'', ''bob''), (''password'', ''b-secret'')]))"
  by (simp add: example_defs is_authenticated_def LoginView_def View_dispatch_def
      LoginView_post_def login_view_def example_login_form_def example_host_allowed_def
      auth_login_def QueryDict_get_def)

subsection \<open>Logout\<close>

text \<open>
  Claim C5. For every request, under either method, logout empties the session, makes
  the caller anonymous, queues one informational notice and redirects to the route
  named \<^verbatim>\<open>login\<close>. A second logout leaves the session and the user as the first left
  them and redirects again; for a caller who is logged out already the session and the
  user do not change.
\<close>

theorem logout_unconditional:
  "LogoutView request =
     (HttpResponseRedirect (reverse ''login''),
      request\<lparr>req_user := None, req_session := [],
        req_messages := req_messages request @ [(INFO, ''You have successfully logged out.'')]\<rparr>) \<and>
   req_user (snd (LogoutView (snd (LogoutView request)))) = req_user (snd (LogoutView request)) \<and>
   req_session (snd (LogoutView (snd (LogoutView request)))) =
     req_session (snd (LogoutView request)) \<and>
   fst (LogoutView (snd (LogoutView request))) = fst (LogoutView request) \<and>
   (req_user request = None \<and> req_session request = [] \<longrightarrow>
      req_user (snd (LogoutView request)) = req_user request \<and>
      req_session (snd (LogoutView request)) = req_session request \<and>
      fst (LogoutView request) = HttpResponseRedirect (reverse ''login''))"
proof -
  have eq: "\<And>r. LogoutView r =
     (HttpResponseRedirect (reverse ''login''),
      r\<lparr>req_user := None, req_session := [],
        req_messages := req_messages r @ [(INFO, ''You have successfully logged out.'')]\<rparr>)"
    by (simp add: LogoutView_def View_dispatch_def LogoutView_post_def LogoutView_get_def
        logout_def add_message_def Let_def split: http_method.split)
  show ?thesis
    by (simp add: eq)
qed

theorem logout_unconditional_witness:
  "req_user (example_request GET None [] []) = None \<and>
   req_session (example_request GET None [] []) = [] \<and>
   LogoutView (example_request GET None [] []) =
     (HttpResponseRedirect (Reverse ''login'' []),
      (example_request GET None [] [])
        \<lparr>req_messages := [(INFO, ''You have successfully logged out.'')]\<rparr>) \<and>
   LogoutView (example_request POST (Some alice) [] []) =
     (HttpResponseRedirect (Reverse ''login'' []),
      (example_request POST None [] [])
        \<lparr>req_messages := [(INFO, ''You have successfully logged out.'')]\<rparr>)"
  using logout_unconditional [of "example_request GET None [] []"]
    logout_unconditional [of "example_request POST (Some alice) [] []"]
  by (simp add: example_defs reverse_def)

subsection \<open>The account list\<close>

text \<open>
  Claim C9. The account list has no gate: its answer is the same for every caller, the
  anonymous one included, and on a \<^verbatim>\<open>GET\<close> it is the page listing every account
  of the store (whenever the list view does not refuse an empty list: the view's
  \<^verbatim>\<open>allow_empty\<close> is on, as the framework has it unless told otherwise, or there is
  an account).
\<close>

theorem account_list_unrestricted:
  "(req_method request' = req_method request \<longrightarrow>
      AccountList allow_empty d request' kw = AccountList allow_empty d request kw) \<and>
   (req_method request = GET \<and> (allow_empty \<or> accounts d \<noteq> []) \<longrightarrow>
      AccountList allow_empty d request kw =
        (TemplateResponse None
           [(''accounts'', Accounts (accounts d)), (''object_list'', Accounts (accounts d))],
         d) \<and>
      listed_accounts (fst (AccountList allow_empty d request kw)) = accounts d)"
  by (auto simp add: AccountList_def BaseAccountList_def View_dispatch_def
      BaseAccountList_get_def listed_accounts_def Let_def split: http_method.split)

theorem account_list_unrestricted_witness:
  "req_method (example_request GET None [] []) = GET \<and>
   (True \<or> accounts example_db \<noteq> []) \<and>
   AccountList True example_db (example_request GET None [] []) (route 0 0) =
     (TemplateResponse None
        [(''accounts'', Accounts [acme, globex, initech]),
         (''object_list'', Accounts [acme, globex, initech])],
      example_db) \<and>
   listed_accounts (fst (AccountList True example_db (example_request GET None [] []) (route 0 0)))
     = [acme, globex, initech] \<and>
   req_method (example_request GET (Some carol) [] []) =
     req_method (example_request GET None [] []) \<and>
   AccountList True example_db (example_request GET (Some carol) [] []) (route 0 0) =
     AccountList True example_db (example_request GET None [] []) (route 0 0)"
  using account_list_unrestricted
    [where request = "example_request GET None [] []" and allow_empty = True
       and d = example_db and kw = "route 0 0"
       and request' = "example_request GET (Some carol) [] []"]
  by (simp add: example_request_def example_db_def listed_accounts_def)

subsection \<open>The membership list\<close>



text \<open>
  On the routed view the membership gate, as the spec has it, answers before the list
  does: no caller is a member of an account without members.
\<close>

lemma account_user_list_gate_comes_first:
  "get_account d (kw_account kw) = Some a \<Longrightarrow> account_users_all d a = [] \<Longrightarrow>
     AccountUserList allow_empty d request kw = (forbidden request, d)"
  by (simp add: AccountUserList_def MembershipRequiredMixin_def access_policy_def
      AccountMixin_def role_on_def get_account_user_def is_member_def split: option.split)

subsection \<open>Account creation\<close>

text \<open>
  Claim C7 fails on the code: the create view answers every request with
  method-not-allowed and leaves the store as it is, and \<^verbatim>\<open>form_valid\<close>, were it
  called, would end in an error instead of the redirect.
\<close>

theorem account_create_not_allowed:
  "AccountCreate d request kw = (HttpResponseNotAllowed, d) \<and>
   fst (BaseAccountCreate_form_valid form_save d) = ServerError"
  by (simp add: AccountCreate_def BaseAccountCreate_def View_dispatch_def
      BaseAccountCreate_form_valid_def split: http_method.split prod.split)

subsection \<open>The profile view\<close>

lemma filter_others_map:
  "user_pk u = k \<Longrightarrow>
     filter (\<lambda>x. user_pk x \<noteq> k) (map (\<lambda>x. if user_pk x = k then u else x) xs) =
     filter (\<lambda>x. user_pk x \<noteq> k) xs"
  by (induction xs) auto

lemma save_user_others:
  "filter (\<lambda>x. user_pk x \<noteq> user_pk u) (users (save_user d u)) =
     filter (\<lambda>x. user_pk x \<noteq> user_pk u) (users d)"
  by (simp add: save_user_def filter_others_map)

lemma save_user_other:
  "i < length (users d) \<Longrightarrow> user_pk (users d ! i) \<noteq> user_pk u \<Longrightarrow>
     users (save_user d u) ! i = users d ! i"
  by (simp add: save_user_def nth_append)

lemma save_user_tables:
  "accounts (save_user d u) = accounts d \<and> account_users (save_user d u) = account_users d"
  by (simp add: save_user_def)

lemma profile_cases:
  "snd (UserProfileView F su d request) = d \<or>
   (\<exists>v c. req_user request = Some v \<and> req_method request = POST \<and>
      F (req_POST request) d v = Inr c \<and>
      snd (UserProfileView F su d request) = save_user d (c\<lparr>user_pk := user_pk v\<rparr>))"
  by (auto simp add: UserProfileView_def View_dispatch_def UserProfileView_get_def
      UserProfileView_post_def UserProfileView_get_object_def
      split: http_method.split option.split sum.split)

text \<open>
  Claim C8. The object of the profile view is the request's user, whatever the route or
  the form says. A request of user \<open>u\<close> leaves every row of the user table whose key
  is not \<open>u\<close>'s as it was, and the other tables too; a valid post saves the form's
  fields into the row with \<open>u\<close>'s key (a new row of that key, should the table hold none). For two different users each run therefore
  changes at most that user's own row.
\<close>

theorem profile_update_touches_own_record_only:
  "UserProfileView_get_object request = req_user request \<and>
   (req_user request = Some u \<longrightarrow>
      filter (\<lambda>x. user_pk x \<noteq> user_pk u) (users (snd (UserProfileView F su d request))) =
        filter (\<lambda>x. user_pk x \<noteq> user_pk u) (users d) \<and>
      (\<forall>i < length (users d). user_pk (users d ! i) \<noteq> user_pk u \<longrightarrow>
         users (snd (UserProfileView F su d request)) ! i = users d ! i) \<and>
      accounts (snd (UserProfileView F su d request)) = accounts d \<and>
      account_users (snd (UserProfileView F su d request)) = account_users d) \<and>
   (req_user request = Some u \<and> req_method request = POST \<and>
    F (req_POST request) d u = Inr c \<longrightarrow>
      UserProfileView F su d request =
        (HttpResponseRedirect (UserProfileView_get_success_url su),
         save_user d (c\<lparr>user_pk := user_pk u\<rparr>))) \<and>
   (req_user request = None \<longrightarrow> UserProfileView F su d request = (ServerError, d))"
proof -
  have own: "UserProfileView_get_object request = req_user request"
    by (simp add: UserProfileView_get_object_def)
  have frame: "req_user request = Some u \<longrightarrow>
      filter (\<lambda>x. user_pk x \<noteq> user_pk u) (users (snd (UserProfileView F su d request))) =
        filter (\<lambda>x. user_pk x \<noteq> user_pk u) (users d) \<and>
      (\<forall>i < length (users d). user_pk (users d ! i) \<noteq> user_pk u \<longrightarrow>
         users (snd (UserProfileView F su d request)) ! i = users d ! i) \<and>
      accounts (snd (UserProfileView F su d request)) = accounts d \<and>
      account_users (snd (UserProfileView F su d request)) = account_users d"
  proof
    assume u: "req_user request = Some u"
    from profile_cases [of F su d request]
    show "filter (\<lambda>x. user_pk x \<noteq> user_pk u) (users (snd (UserProfileView F su d request))) =
        filter (\<lambda>x. user_pk x \<noteq> user_pk u) (users d) \<and>
      (\<forall>i < length (users d). user_pk (users d ! i) \<noteq> user_pk u \<longrightarrow>
         users (snd (UserProfileView F su d request)) ! i = users d ! i) \<and>
      accounts (snd (UserProfileView F su d request)) = accounts d \<and>
      account_users (snd (UserProfileView F su d request)) = account_users d"
    proof
      assume "snd (UserProfileView F su d request) = d"
      then show ?thesis by simp
    next
      assume "\<exists>v c. req_user request = Some v \<and> req_method request = POST \<and>
        F (req_POST request) d v = Inr c \<and>
        snd (UserProfileView F su d request) = save_user d (c\<lparr>user_pk := user_pk v\<rparr>)"
      then obtain c where
        saved: "snd (UserProfileView F su d request) = save_user d (c\<lparr>user_pk := user_pk u\<rparr>)"
        using u by auto
      have others: "filter (\<lambda>x. user_pk x \<noteq> user_pk u)
            (users (save_user d (c\<lparr>user_pk := user_pk u\<rparr>))) =
          filter (\<lambda>x. user_pk x \<noteq> user_pk u) (users d)"
        using save_user_others [of "c\<lparr>user_pk := user_pk u\<rparr>" d] by simp
      have each: "\<forall>i < length (users d). user_pk (users d ! i) \<noteq> user_pk u \<longrightarrow>
          users (save_user d (c\<lparr>user_pk := user_pk u\<rparr>)) ! i = users d ! i"
        using save_user_other [of _ d "c\<lparr>user_pk := user_pk u\<rparr>"] by simp
      show ?thesis
        using others each by (simp add: saved save_user_tables)
    qed
  qed
  have post: "req_user request = Some u \<and> req_method request = POST \<and>
    F (req_POST request) d u = Inr c \<longrightarrow>
      UserProfileView F su d request =
        (HttpResponseRedirect (UserProfileView_get_success_url su),
         save_user d (c\<lparr>user_pk := user_pk u\<rparr>))"
    by (simp add: UserProfileView_def View_dispatch_def UserProfileView_post_def
        UserProfileView_get_object_def)
  have anon: "req_user request = None \<longrightarrow> UserProfileView F su d request = (ServerError, d)"
    by (simp add: UserProfileView_def View_dispatch_def UserProfileView_post_def
        UserProfileView_get_def UserProfileView_get_object_def split: http_method.split)
  from own frame post anon show ?thesis by blast
qed

theorem profile_update_touches_own_record_only_witness:
  "req_user (example_request POST (Some bob) [] [(''email'', ''bob@new.example'')]) = Some bob \<and>
   req_method (example_request POST (Some bob) [] [(''email'', ''bob@new.example'')]) = POST \<and>
   example_profile_form
       (req_POST (example_request POST (Some bob) [] [(''email'', ''bob@new.example'')]))
       example_db bob = Inr (bob\<lparr>email := ''bob@new.example''\<rparr>) \<and>
   UserProfileView example_profile_form None example_db
       (example_request POST (Some bob) [] [(''email'', ''bob@new.example'')]) =
     (HttpResponseRedirect (Reverse ''user_profile'' []),
      example_db\<lparr>users := [alice, bob\<lparr>email := ''bob@new.example''\<rparr>, carol]\<rparr>) \<and>
   (0::nat) < length (users example_db) \<and>
   user_pk (users example_db ! 0) \<noteq> user_pk bob \<and>
   users (snd (UserProfileView example_profile_form None example_db
       (example_request POST (Some bob) [] [(''email'', ''bob@new.example'')]))) ! 0 = alice \<and>
   req_user (example_request POST None [] [(''email'', ''x@new.example'')]) = None \<and>
   UserProfileView example_profile_form None example_db
       (example_request POST None [] [(''email'', ''x@new.example'')]) = (ServerError, example_db)"
  using profile_update_touches_own_record_only
    [where request = "example_request POST (Some bob) [] [(''email'', ''bob@new.example'')]"
       and u = bob and F = example_profile_form and su = None and d = example_db
       and c = "bob\<lparr>email := ''bob@new.example''\<rparr>"]
    profile_update_touches_own_record_only
    [where request = "example_request POST None [] [(''email'', ''x@new.example'')]"
       and F = example_profile_form and su = None and d = example_db]
  by (simp add: example_defs example_profile_form_def save_user_def
      UserProfileView_get_success_url_def reverse_def)

subsection \<open>Adding a member\<close>

lemma get_account_pk: "get_account d pk = Some a \<Longrightarrow> account_pk a = pk"
  by (auto simp add: get_account_def find_Some_iff)

lemma account_user_create_cases:
  "snd (AccountUserCreate clean d request kw) = d \<or>
   (\<exists>upk r. snd (AccountUserCreate clean d request kw) =
      d\<lparr>account_users := account_users d @
          [\<lparr>au_account = kw_account kw, au_user = upk, au_role = r\<rparr>]\<rparr>)"
proof (cases "get_account d (kw_account kw)")
  case None
  then show ?thesis
    by (simp add: AccountUserCreate_def AdminRequiredMixin_def access_policy_def
        AccountMixin_def)
next
  case (Some a)
  then have pk: "account_pk a = kw_account kw"
    by (rule get_account_pk)
  show ?thesis
    using Some
    by (auto simp add: AccountUserCreate_def AdminRequiredMixin_def access_policy_def
        BaseAccountUserCreate_def View_dispatch_def BaseAccountUserCreate_get_def
        BaseAccountUserCreate_post_def AccountUserAddForm_save_def AccountMixin_def
        BaseAccountUserCreate_get_form_kwargs_def Let_def pk
        split: http_method.split sum.split)
qed

lemma account_user_create_created:
  "\<forall>m \<in> set (created_memberships d (snd (AccountUserCreate clean d request kw))).
     au_account m = kw_account kw"
  using account_user_create_cases [of clean d request kw]
  by (auto simp add: created_memberships_def)

text \<open>
  Claim C2. A request to the add-member view of the route's account leaves the accounts
  and users as they are and appends to the memberships only rows of the route's account;
  for any two requests to that route, whatever their form bodies, every membership
  either run creates belongs to the route's account. An admin's valid post creates
  exactly the membership of the cleaned user and role in the route's account and
  redirects to it.
\<close>

theorem account_user_create_binds_route_account:
  "accounts (snd (AccountUserCreate clean d request kw)) = accounts d \<and>
   users (snd (AccountUserCreate clean d request kw)) = users d \<and>
   account_users (snd (AccountUserCreate clean d request kw)) =
     account_users d @ created_memberships d (snd (AccountUserCreate clean d request kw)) \<and>
   (\<forall>m \<in> set (created_memberships d (snd (AccountUserCreate clean d request kw))).
    \<forall>m' \<in> set (created_memberships d (snd (AccountUserCreate clean d request' kw))).
      au_account m = kw_account kw \<and> au_account m' = kw_account kw) \<and>
   (get_account d (kw_account kw) = Some a \<and> is_admin (role_on d a request) \<and>
    req_method request = POST \<and> clean (req_POST request) d = Inr (upk, r) \<longrightarrow>
      AccountUserCreate clean d request kw =
        (HttpResponseRedirect (Reverse ''accountuser_detail'' [kw_account kw, upk]),
         d\<lparr>account_users := account_users d @
             [\<lparr>au_account = kw_account kw, au_user = upk, au_role = r\<rparr>]\<rparr>))"
proof -
  let ?d' = "snd (AccountUserCreate clean d request kw)"
  have frame: "accounts ?d' = accounts d \<and> users ?d' = users d \<and>
      account_users ?d' = account_users d @ created_memberships d ?d'"
    using account_user_create_cases [of clean d request kw]
    by (auto simp add: created_memberships_def)
  have two: "\<forall>m \<in> set (created_memberships d ?d').
      \<forall>m' \<in> set (created_memberships d (snd (AccountUserCreate clean d request' kw))).
        au_account m = kw_account kw \<and> au_account m' = kw_account kw"
    using account_user_create_created [of d clean request kw]
      account_user_create_created [of d clean request' kw]
    by blast
  have ok: "get_account d (kw_account kw) = Some a \<and> is_admin (role_on d a request) \<and>
    req_method request = POST \<and> clean (req_POST request) d = Inr (upk, r) \<longrightarrow>
      AccountUserCreate clean d request kw =
        (HttpResponseRedirect (Reverse ''accountuser_detail'' [kw_account kw, upk]),
         d\<lparr>account_users := account_users d @
             [\<lparr>au_account = kw_account kw, au_user = upk, au_role = r\<rparr>]\<rparr>)"
    by (auto simp add: AccountUserCreate_def AdminRequiredMixin_def access_policy_def
        BaseAccountUserCreate_def View_dispatch_def BaseAccountUserCreate_post_def
        AccountUserAddForm_save_def AccountUserAddForm_is_valid_def AccountMixin_def
        BaseAccountUserCreate_get_form_kwargs_def CreateView_get_form_kwargs_def Let_def
        BaseAccountUserCreate_get_success_url_def account_user_get_absolute_url_def
        dest: get_account_pk)
  from frame two ok show ?thesis by blast
qed

theorem account_user_create_binds_route_account_witness:
  "get_account example_db (kw_account (route 1 0)) = Some acme \<and>
   is_admin (role_on example_db acme
      (example_request POST (Some alice) []
         [(''email'', ''carol@example.org''), (''role'', ''member''), (''account'', ''2'')])) \<and>
   req_method (example_request POST (Some alice) []
         [(''email'', ''carol@example.org''), (''role'', ''member''), (''account'', ''2'')]) = POST \<and>
   example_clean
     (req_POST (example_request POST (Some alice) []
         [(''email'', ''carol@example.org''), (''role'', ''member''), (''account'', ''2'')]))
     example_db = Inr (3, Member) \<and>
   AccountUserCreate example_clean example_db
       (example_request POST (Some alice) []
         [(''email'', ''carol@example.org''), (''role'', ''member''), (''account'', ''2'')])
       (route 1 0) =
     (HttpResponseRedirect (Reverse ''accountuser_detail'' [1, 3]),
      example_db\<lparr>account_users := account_users example_db @ [membership 1 3 Member]\<rparr>) \<and>
   AccountUserCreate example_clean example_db
       (example_request POST (Some alice) []
         [(''email'', ''carol@example.org''), (''role'', ''member''), (''account'', ''3'')])
       (route 1 0) =
     AccountUserCreate example_clean example_db
       (example_request POST (Some alice) []
         [(''email'', ''carol@example.org''), (''role'', ''member''), (''account'', ''2'')])
       (route 1 0) \<and>
   membership 1 3 Member \<in> set (created_memberships example_db
     (snd (AccountUserCreate example_clean example_db
       (example_request POST (Some alice) []
         [(''email'', ''carol@example.org''), (''role'', ''member''), (''account'', ''2'')])
       (route 1 0)))) \<and>
   membership 1 3 Member \<in> set (created_memberships example_db
     (snd (AccountUserCreate example_clean example_db
       (example_request POST (Some alice) []
         [(''email'', ''carol@example.org''), (''role'', ''member''), (''account'', ''3'')])
       (route 1 0)))) \<and>
   au_account (membership 1 3 Member) = kw_account (route 1 0)"
  using account_user_create_binds_route_account
    [where clean = example_clean and d = example_db and kw = "route 1 0" and a = acme
       and upk = 3 and r = Member
       and request = "example_request POST (Some alice) []
         [(''email'', ''carol@example.org''), (''role'', ''member''), (''account'', ''2'')]"
       and request' = "example_request POST (Some alice) []
         [(''email'', ''carol@example.org''), (''role'', ''member''), (''account'', ''3'')]"]
    account_user_create_binds_route_account
    [where clean = example_clean and d = example_db and kw = "route 1 0" and a = acme
       and upk = 3 and r = Member
       and request = "example_request POST (Some alice) []
         [(''email'', ''carol@example.org''), (''role'', ''member''), (''account'', ''3'')]"
       and request' = "example_request POST (Some alice) []
         [(''email'', ''carol@example.org''), (''role'', ''member''), (''account'', ''2'')]"]
  by (simp add: example_defs get_account_def is_admin_def role_on_def get_account_user_def
      account_users_all_def example_clean_def example_role_def created_memberships_def)

subsection \<open>No request brings an account key back\<close>

lemma access_policy_pks:
  assumes "\<And>d request kw. account_pks (snd (base d request kw)) \<subseteq> account_pks d"
  shows "account_pks (snd (access_policy allowed resolve base d request kw)) \<subseteq> account_pks d"
  using assms by (simp add: access_policy_def split: option.split)

lemma save_account_pks: "account_pks (save_account d a) \<subseteq> account_pks d"
  by (auto simp add: account_pks_def save_account_def intro: rev_image_eqI)

lemma delete_account_pks: "account_pks (delete_account d a) \<subseteq> account_pks d"
  by (auto simp add: account_pks_def delete_account_def)

lemma BaseAccountUpdate_pks:
  "account_pks (snd (BaseAccountUpdate F d request kw)) \<subseteq> account_pks d"
proof -
  have "\<And>a c. AccountMixin d kw = Some a \<Longrightarrow>
      account_pks (save_account d (c\<lparr>account_pk := account_pk a\<rparr>)) \<subseteq> account_pks d"
    by (rule save_account_pks)
  then show ?thesis
    by (auto simp add: BaseAccountUpdate_def View_dispatch_def BaseAccountUpdate_get_def
        BaseAccountUpdate_post_def Let_def
        split: http_method.split option.split sum.split)
qed

lemma BaseAccountDelete_pks:
  "account_pks (snd (BaseAccountDelete d request kw)) \<subseteq> account_pks d"
  using delete_account_pks
  by (auto simp add: BaseAccountDelete_def View_dispatch_def BaseAccountDelete_get_def
      BaseAccountDelete_post_def split: http_method.split option.split)

lemma BaseAccountUserUpdate_pks:
  "account_pks (snd (BaseAccountUserUpdate F d request kw)) \<subseteq> account_pks d"
  by (auto simp add: BaseAccountUserUpdate_def View_dispatch_def BaseAccountUserUpdate_get_def
      BaseAccountUserUpdate_post_def account_pks_def save_account_user_def
      split: http_method.split option.split sum.split prod.split)

lemma BaseAccountUserDelete_pks:
  "account_pks (snd (BaseAccountUserDelete d request kw)) \<subseteq> account_pks d"
  by (auto simp add: BaseAccountUserDelete_def View_dispatch_def BaseAccountUserDelete_get_def
      BaseAccountUserDelete_post_def account_pks_def delete_account_user_def Let_def
      split: http_method.split option.split prod.split)

lemma BaseAccountUserCreate_pks:
  "account_pks (snd (BaseAccountUserCreate clean d request kw)) \<subseteq> account_pks d"
  by (auto simp add: BaseAccountUserCreate_def View_dispatch_def BaseAccountUserCreate_get_def
      BaseAccountUserCreate_post_def AccountUserAddForm_save_def account_pks_def Let_def
      BaseAccountUserCreate_get_form_kwargs_def
      split: http_method.split option.split sum.split)

lemma unchanged_views:
  "snd (AccountList ae d request kw) = d"
  "snd (AccountCreate d request kw) = d"
  "snd (BaseAccountDetail d request kw) = d"
  "snd (BaseAccountUserList ae d request kw) = d"
  "snd (BaseAccountUserDetail d request kw) = d"
  by (simp_all add: AccountList_def BaseAccountList_def AccountCreate_def BaseAccountCreate_def
      BaseAccountDetail_def BaseAccountUserList_def BaseAccountUserDetail_def View_dispatch_def
      split: http_method.split)

lemma UserProfileView_pks:
  "account_pks (snd (UserProfileView F su d request)) \<subseteq> account_pks d"
  using profile_cases [of F su d request]
  by (auto simp add: account_pks_def save_user_tables)

lemma serve_pks: "account_pks (serve dep d x) \<subseteq> account_pks d"
proof (cases x)
  case (fields v request kw)
  show ?thesis
    unfolding fields
    by (cases v)
      (simp_all add: unchanged_views UserProfileView_pks
        AccountDetail_def AccountUpdate_def AccountDelete_def AccountUserList_def
        AccountUserCreate_def AccountUserDetail_def AccountUserUpdate_def AccountUserDelete_def
        MembershipRequiredMixin_def AdminRequiredMixin_def OwnerRequiredMixin_def
        access_policy_pks BaseAccountUpdate_pks BaseAccountDelete_pks
        BaseAccountUserUpdate_pks BaseAccountUserDelete_pks BaseAccountUserCreate_pks)
qed

lemma fold_serve_pks: "account_pks (fold (\<lambda>x d. serve dep d x) xs d) \<subseteq> account_pks d"
proof (induction xs arbitrary: d)
  case Nil
  show ?case by simp
next
  case (Cons x xs)
  have "account_pks (fold (\<lambda>x d. serve dep d x) xs (serve dep d x)) \<subseteq> account_pks (serve dep d x)"
    by (rule Cons.IH)
  also have "\<dots> \<subseteq> account_pks d" by (rule serve_pks)
  finally show ?case by simp
qed

lemma serve_all_pks: "account_pks (serve_all dep d xs) \<subseteq> account_pks d"
  by (simp add: serve_all_def fold_serve_pks)

lemma delete_account_pk_gone: "account_pk a \<notin> account_pks (delete_account d a)"
  by (auto simp add: account_pks_def delete_account_def)

lemma listed_accounts_list:
  "set (listed_accounts (fst (AccountList allow_empty d request kw))) \<subseteq> set (accounts d)"
  by (auto simp add: AccountList_def BaseAccountList_def View_dispatch_def
      BaseAccountList_get_def listed_accounts_def Let_def split: http_method.split)

lemma listed_accounts_pks:
  "account_pk ` set (listed_accounts (fst (AccountList allow_empty d request kw))) \<subseteq> account_pks d"
  using listed_accounts_list [of allow_empty d request kw]
  by (auto simp add: account_pks_def)

subsection \<open>Deleting an account\<close>

text \<open>
  Claim C3. The delete view answers not-found for an account that does not resolve and
  Forbidden, with the store unchanged, for every caller whose role on the account is
  not owner. For an owner a \<^verbatim>\<open>GET\<close> asks for confirmation and a \<^verbatim>\<open>POST\<close>
  deletes the account and redirects to the route named \<^verbatim>\<open>account_list\<close>. After the
  deletion the account does not resolve, and whatever requests are served afterwards,
  no account list shows an account with its key.
\<close>

theorem account_delete_owner_only:
  "(AccountMixin d kw = None \<longrightarrow> AccountDelete d request kw = (Http404, d)) \<and>
   (AccountMixin d kw = Some a \<and> role_on d a request \<noteq> Some Owner \<longrightarrow>
      AccountDelete d request kw = (forbidden request, d)) \<and>
   (AccountMixin d kw = Some a \<and> role_on d a request = Some Owner \<and>
    req_method request = GET \<longrightarrow>
      AccountDelete d request kw = (TemplateResponse None [(''object'', AccountV a)], d)) \<and>
   (AccountMixin d kw = Some a \<and> role_on d a request = Some Owner \<and>
    req_method request = POST \<longrightarrow>
      AccountDelete d request kw =
        (HttpResponseRedirect (reverse ''account_list''), delete_account d a)) \<and>
   get_account (delete_account d a) (account_pk a) = None \<and>
   (\<forall>x \<in> set (listed_accounts
        (fst (AccountList allow_empty (serve_all dep (delete_account d a) later) request' kw'))).
      account_pk x \<noteq> account_pk a)"
proof -
  have gate: "(AccountMixin d kw = None \<longrightarrow> AccountDelete d request kw = (Http404, d)) \<and>
   (AccountMixin d kw = Some a \<and> role_on d a request \<noteq> Some Owner \<longrightarrow>
      AccountDelete d request kw = (forbidden request, d))"
    by (simp add: AccountDelete_def OwnerRequiredMixin_def access_policy_def is_owner_def)
  have body: "(AccountMixin d kw = Some a \<and> role_on d a request = Some Owner \<and>
    req_method request = GET \<longrightarrow>
      AccountDelete d request kw = (TemplateResponse None [(''object'', AccountV a)], d)) \<and>
   (AccountMixin d kw = Some a \<and> role_on d a request = Some Owner \<and>
    req_method request = POST \<longrightarrow>
      AccountDelete d request kw =
        (HttpResponseRedirect (reverse ''account_list''), delete_account d a))"
    by (simp add: AccountDelete_def OwnerRequiredMixin_def access_policy_def is_owner_def
        BaseAccountDelete_def View_dispatch_def BaseAccountDelete_get_def
        BaseAccountDelete_post_def BaseAccountDelete_get_success_url_def)
  have gone: "get_account (delete_account d a) (account_pk a) = None"
    by (simp add: get_account_def delete_account_def find_None_iff)
  have listed: "\<forall>x \<in> set (listed_accounts
        (fst (AccountList allow_empty (serve_all dep (delete_account d a) later) request' kw'))).
      account_pk x \<noteq> account_pk a"
  proof
    fix x
    assume "x \<in> set (listed_accounts
        (fst (AccountList allow_empty (serve_all dep (delete_account d a) later) request' kw')))"
    then have "account_pk x \<in> account_pks (serve_all dep (delete_account d a) later)"
      using listed_accounts_pks by fastforce
    then have "account_pk x \<in> account_pks (delete_account d a)"
      using serve_all_pks by fastforce
    then show "account_pk x \<noteq> account_pk a"
      using delete_account_pk_gone [of a d] by auto
  qed
  from gate body gone listed show ?thesis by simp
qed

lemmas lookup_defs =
  AccountMixin_def AccountUserMixin_def get_account_def get_account_user_def
  account_users_all_def role_on_def

theorem account_delete_owner_only_witness:
  "AccountMixin example_db (route 7 0) = None \<and>
   AccountDelete example_db (example_request POST (Some alice) [] []) (route 7 0) =
     (Http404, example_db) \<and>
   AccountMixin example_db (route 1 0) = Some acme \<and>
   role_on example_db acme (example_request POST (Some bob) [] []) \<noteq> Some Owner \<and>
   AccountDelete example_db (example_request POST (Some bob) [] []) (route 1 0) =
     (Forbidden Status403, example_db) \<and>
   role_on example_db acme (example_request GET (Some alice) [] []) = Some Owner \<and>
   req_method (example_request GET (Some alice) [] []) = GET \<and>
   AccountDelete example_db (example_request GET (Some alice) [] []) (route 1 0) =
     (TemplateResponse None [(''object'', AccountV acme)], example_db) \<and>
   role_on example_db acme (example_request POST (Some alice) [] []) = Some Owner \<and>
   req_method (example_request POST (Some alice) [] []) = POST \<and>
   AccountDelete example_db (example_request POST (Some alice) [] []) (route 1 0) =
     (HttpResponseRedirect (Reverse ''account_list'' []),
      \<lparr>users = [alice, bob, carol], accounts = [globex, initech],
       account_users = [membership 2 2 Owner, membership 2 3 Admin]\<rparr>) \<and>
   globex \<in> set (listed_accounts (fst (AccountList True
       (serve_all example_deployment (delete_account example_db acme)
          [(AccountCreate_view,
            example_request POST (Some bob) [] [(''name'', ''Acme'')], route 0 0)])
       (example_request GET None [] []) (route 0 0)))) \<and>
   account_pk globex \<noteq> account_pk acme"
  using account_delete_owner_only
    [where d = example_db and kw = "route 7 0" and a = acme
       and request = "example_request POST (Some alice) [] []"
       and allow_empty = True and dep = example_deployment
       and later = "[(AccountCreate_view,
            example_request POST (Some bob) [] [(''name'', ''Acme'')], route 0 0)]"
       and request' = "example_request GET None [] []" and kw' = "route 0 0"]
    account_delete_owner_only
    [where d = example_db and kw = "route 1 0" and a = acme
       and request = "example_request POST (Some bob) [] []"
       and allow_empty = True and dep = example_deployment
       and later = "[(AccountCreate_view,
            example_request POST (Some bob) [] [(''name'', ''Acme'')], route 0 0)]"
       and request' = "example_request GET None [] []" and kw' = "route 0 0"]
    account_delete_owner_only
    [where d = example_db and kw = "route 1 0" and a = acme
       and request = "example_request GET (Some alice) [] []"
       and allow_empty = True and dep = example_deployment
       and later = "[(AccountCreate_view,
            example_request POST (Some bob) [] [(''name'', ''Acme'')], route 0 0)]"
       and request' = "example_request GET None [] []" and kw' = "route 0 0"]
    account_delete_owner_only
    [where d = example_db and kw = "route 1 0" and a = acme
       and request = "example_request POST (Some alice) [] []"
       and allow_empty = True and dep = example_deployment
       and later = "[(AccountCreate_view,
            example_request POST (Some bob) [] [(''name'', ''Acme'')], route 0 0)]"
       and request' = "example_request GET None [] []" and kw' = "route 0 0"]
  by (simp add: example_defs lookup_defs forbidden_def is_authenticated_def reverse_def
      delete_account_def serve_all_def AccountCreate_def BaseAccountCreate_def
      AccountList_def BaseAccountList_def BaseAccountList_get_def View_dispatch_def
      listed_accounts_def Let_def)

subsection \<open>Role gating\<close>

text \<open>
  Claim C1. For an account that resolves, a caller with no membership in it receives
  Forbidden from the detail view, whatever the caller's roles in other accounts; a
  caller whose role in it is member receives Forbidden from the account's update view
  and from the views that create, update and delete the account's memberships (the
  last two on a membership that resolves). The store is unchanged each time.
\<close>

theorem role_gating:
  "(AccountMixin d kw = Some a \<and> role_on d a request = None \<longrightarrow>
      AccountDetail d request kw = (forbidden request, d)) \<and>
   (AccountMixin d kw = Some a \<and> role_on d a request = Some Member \<longrightarrow>
      AccountUpdate AccountForm d request kw = (Forbidden Status403, d) \<and>
      AccountUserCreate clean d request kw = (Forbidden Status403, d)) \<and>
   (AccountUserMixin d kw = Some (a, m) \<and> role_on d a request = Some Member \<longrightarrow>
      AccountUserUpdate AccountUserForm d request kw = (Forbidden Status403, d) \<and>
      AccountUserDelete d request kw = (Forbidden Status403, d))"
proof -
  have auth: "role_on d a request = Some Member \<Longrightarrow> forbidden request = Forbidden Status403"
    by (auto simp add: role_on_def forbidden_def is_authenticated_def split: option.splits)
  have detail: "AccountMixin d kw = Some a \<and> role_on d a request = None \<longrightarrow>
      AccountDetail d request kw = (forbidden request, d)"
    by (simp add: AccountDetail_def MembershipRequiredMixin_def access_policy_def is_member_def)
  have account: "AccountMixin d kw = Some a \<and> role_on d a request = Some Member \<longrightarrow>
      AccountUpdate AccountForm d request kw = (Forbidden Status403, d) \<and>
      AccountUserCreate clean d request kw = (Forbidden Status403, d)"
    using auth
    by (simp add: AccountUpdate_def AccountUserCreate_def AdminRequiredMixin_def
        access_policy_def is_admin_def)
  have member: "AccountUserMixin d kw = Some (a, m) \<and> role_on d a request = Some Member \<longrightarrow>
      AccountUserUpdate AccountUserForm d request kw = (Forbidden Status403, d) \<and>
      AccountUserDelete d request kw = (Forbidden Status403, d)"
    using auth
    by (simp add: AccountUserUpdate_def AccountUserDelete_def AdminRequiredMixin_def
        access_policy_def is_admin_def AccountUserMixin_account_def)
  from detail account member show ?thesis by simp
qed

theorem role_gating_witness:
  "AccountMixin example_db (route 1 0) = Some acme \<and>
   role_on example_db acme (example_request GET (Some carol) [] []) = None \<and>
   role_on example_db globex (example_request GET (Some carol) [] []) = Some Admin \<and>
   AccountDetail example_db (example_request GET (Some carol) [] []) (route 1 0) =
     (Forbidden Status403, example_db) \<and>
   role_on example_db acme (example_request GET None [] []) = None \<and>
   AccountDetail example_db (example_request GET None [] []) (route 1 0) =
     (Forbidden RedirectToLogin, example_db) \<and>
   role_on example_db acme (example_request POST (Some bob) [] [(''name'', ''Mine'')])
     = Some Member \<and>
   role_on example_db globex (example_request POST (Some bob) [] [(''name'', ''Mine'')])
     = Some Owner \<and>
   AccountUpdate example_account_form example_db
       (example_request POST (Some bob) [] [(''name'', ''Mine'')]) (route 1 0) =
     (Forbidden Status403, example_db) \<and>
   AccountUserCreate example_clean example_db
       (example_request POST (Some bob) [] [(''name'', ''Mine'')]) (route 1 0) =
     (Forbidden Status403, example_db) \<and>
   AccountUserMixin example_db (route 1 1) = Some (acme, membership 1 1 Owner) \<and>
   AccountUserUpdate example_account_user_form example_db
       (example_request POST (Some bob) [] [(''name'', ''Mine'')]) (route 1 1) =
     (Forbidden Status403, example_db) \<and>
   AccountUserDelete example_db
       (example_request POST (Some bob) [] [(''name'', ''Mine'')]) (route 1 1) =
     (Forbidden Status403, example_db)"
  using role_gating
    [where d = example_db and kw = "route 1 0" and a = acme and m = "membership 1 1 Owner"
       and request = "example_request GET (Some carol) [] []"
       and AccountForm = example_account_form and clean = example_clean
       and AccountUserForm = example_account_user_form]
    role_gating
    [where d = example_db and kw = "route 1 0" and a = acme and m = "membership 1 1 Owner"
       and request = "example_request GET None [] []"
       and AccountForm = example_account_form and clean = example_clean
       and AccountUserForm = example_account_user_form]
    role_gating
    [where d = example_db and kw = "route 1 0" and a = acme and m = "membership 1 1 Owner"
       and request = "example_request POST (Some bob) [] [(''name'', ''Mine'')]"
       and AccountForm = example_account_form and clean = example_clean
       and AccountUserForm = example_account_user_form]
    role_gating
    [where d = example_db and kw = "route 1 1" and a = acme and m = "membership 1 1 Owner"
       and request = "example_request POST (Some bob) [] [(''name'', ''Mine'')]"
       and AccountForm = example_account_form and clean = example_clean
       and AccountUserForm = example_account_user_form]
  by (simp add: example_defs lookup_defs forbidden_def is_authenticated_def)

end
